theory Spec2Isabelle
  imports Complex_Main "HOL-Library.Sublist" "HOL-Library.Multiset"
begin

section \<open>JavaScript values as the pages handle them\<close>

text \<open>
  The two pages work on values decoded from JSON and typed \<open>any\<close>. A value is one of
  the JSON shapes or \<open>undefined\<close>. A number carries the real value of the double; the
  pages only test numbers against zero and subtract timestamps, and JSON cannot carry NaN.
  An object is the list of its own properties in insertion order.
\<close>

datatype js =
    Undefined
  | Null
  | Bool bool
  | Num real
  | Str string
  | Arr "js list"
  | Obj "(string \<times> js) list"

text \<open>Truthiness, as \<open>if (v)\<close>, \<open>!v\<close>, \<open>a || b\<close> and \<open>a && b\<close> test it.\<close>

fun truthy :: "js \<Rightarrow> bool" where
  "truthy Undefined = False"
| "truthy Null = False"
| "truthy (Bool b) = b"
| "truthy (Num n) = (n \<noteq> 0)"
| "truthy (Str s) = (s \<noteq> [])"
| "truthy (Arr xs) = True"
| "truthy (Obj kvs) = True"

text \<open>\<open>a || b\<close>: the left operand when it is truthy, else the right one.\<close>

definition js_or :: "js \<Rightarrow> js \<Rightarrow> js" where
  "js_or a b = (if truthy a then a else b)"

text \<open>
  \<open>null\<close> and \<open>undefined\<close> are the values on which a property read throws;
  \<open>typeof v === "string"\<close>; \<open>Array.isArray(v)\<close>; the elements of an array.
\<close>

definition nullish :: "js \<Rightarrow> bool" where
  "nullish v = (case v of Null \<Rightarrow> True | Undefined \<Rightarrow> True | _ \<Rightarrow> False)"

definition is_string :: "js \<Rightarrow> bool" where
  "is_string v = (case v of Str s \<Rightarrow> True | _ \<Rightarrow> False)"

definition isArray :: "js \<Rightarrow> bool" where
  "isArray data = (case data of Arr xs \<Rightarrow> True | _ \<Rightarrow> False)"

definition elements :: "js \<Rightarrow> js list" where
  "elements v = (case v of Arr xs \<Rightarrow> xs | _ \<Rightarrow> [])"

text \<open>
  Conversion to a primitive, which \<open>new Date(v)\<close>, \<open>v >= 9\<close>, \<open>v * 10\<close> and a template
  literal apply to their operand. A primitive is its own result. A decoded object has no
  callable method of its own, so the conversion falls to the inherited \<open>valueOf\<close>, which
  returns the object, and the inherited \<open>toString\<close>, which returns a string: it completes
  unless a property named \<open>toString\<close> hides the inherited one, and then throws a
  TypeError. An array is joined, which converts each element that is not nullish.
\<close>

fun converts :: "js \<Rightarrow> bool" where
  "converts (Obj kvs) = (map_of kvs ''toString'' = None)"
| "converts (Arr xs) = list_all converts xs"
| "converts v = True"

text \<open>
  Reading a named property, \<open>v.k\<close> and \<open>v?.k\<close>, for the identifier keys the pages use
  (none is an index, \<open>length\<close> or a prototype member, so only an object can hold one).
  On \<open>null\<close> and \<open>undefined\<close> the optional form yields \<open>undefined\<close>; the pages apply
  the plain form only to a receiver they have already tested truthy.
\<close>

fun get_prop :: "js \<Rightarrow> string \<Rightarrow> js" where
  "get_prop (Obj kvs) k = (case map_of kvs k of Some v \<Rightarrow> v | None \<Rightarrow> Undefined)"
| "get_prop v k = Undefined"

text \<open>The decimal numeral of an array index, the key under which a spread copies an element.\<close>

fun dec :: "nat \<Rightarrow> string" where
  "dec n = (if n < 10 then [''0123456789'' ! n]
            else dec (n div 10) @ [''0123456789'' ! (n mod 10)])"

declare dec.simps [simp del]

text \<open>
  The own enumerable properties that an object spread \<open>{...v}\<close> copies: those of an
  object, the indexed elements of an array, the indexed characters of a string, and
  nothing for the other primitives.
\<close>

fun own_props :: "js \<Rightarrow> (string \<times> js) list" where
  "own_props (Obj kvs) = kvs"
| "own_props (Arr xs) = zip (map dec [0..<length xs]) xs"
| "own_props (Str s) = zip (map dec [0..<length s]) (map (\<lambda>c. Str [c]) s)"
| "own_props v = []"

text \<open>
  A later \<open>k: v\<close> in an object literal: the property is overwritten where it stands, or
  added at the end.
\<close>

fun assign :: "string \<Rightarrow> js \<Rightarrow> (string \<times> js) list \<Rightarrow> (string \<times> js) list" where
  "assign k v [] = [(k, v)]"
| "assign k v ((k', v') # kvs) =
     (if k' = k then (k, v) # kvs else (k', v') # assign k v kvs)"

section \<open>The review detail hook: \<open>useReviewDetail\<close>\<close>

text \<open>
  \<open>JSON.parse\<close> is the platform's; the hook takes it as the parameter \<open>JSON_parse\<close>,
  with \<open>None\<close> for the SyntaxError it throws on text that is not JSON.

  \<open>parsedResults\<close> starts \<open>undefined\<close>. When \<open>reviewData.code_data?.results\<close> is truthy
  it is decoded if it is a string and taken as it is otherwise; a decoding failure is
  caught and logged, and leaves \<open>parsedResults\<close> undefined.
\<close>

definition parsedResults :: "(string \<Rightarrow> js option) \<Rightarrow> js \<Rightarrow> js" where
  "parsedResults JSON_parse reviewData =
     (let results = get_prop (get_prop reviewData ''code_data'') ''results'' in
      if truthy results then
        (case results of
           Str s \<Rightarrow> (case JSON_parse s of Some v \<Rightarrow> v | None \<Rightarrow> Undefined)
         | _ \<Rightarrow> results)
      else Undefined)"

text \<open>
  The object literal \<open>detailedReview\<close>: the spread of \<open>reviewData\<close>, then \<open>code\<close>,
  \<open>ai_analysis\<close>, \<open>metrics\<close> and \<open>detailed_issues\<close> in this order.
\<close>

definition detailedReview :: "(string \<Rightarrow> js option) \<Rightarrow> js \<Rightarrow> js" where
  "detailedReview JSON_parse reviewData =
     (let parsed = parsedResults JSON_parse reviewData in
      Obj (assign ''detailed_issues''
             (js_or (get_prop reviewData ''detailed_issues'') (js_or (get_prop parsed ''issues'') (Arr [])))
          (assign ''metrics''
             (js_or (get_prop reviewData ''metrics'') (js_or (get_prop parsed ''metrics'') Undefined))
          (assign ''ai_analysis''
             (js_or (get_prop reviewData ''ai_analysis'') (js_or (get_prop parsed ''analysis'') Undefined))
          (assign ''code''
             (js_or (get_prop (get_prop reviewData ''code_data'') ''code'') (Str []))
          (own_props reviewData))))))"

text \<open>
  The rule each of the three groups follows in that literal, \<open>primary || fallback || d\<close>,
  written out: the first truthy one of the two sources, else the default.
\<close>

definition first_truthy :: "js \<Rightarrow> js \<Rightarrow> js \<Rightarrow> js" where
  "first_truthy primary fallback d =
     (if truthy primary then primary else if truthy fallback then fallback else d)"

text \<open>
  The rule as the specification words it, for comparison with the code's:
  \<open>resolveFieldGroup(primary, fallback) = primary ?? fallback ?? unresolved\<close>, where
  \<open>a ?? b\<close> is \<open>a\<close> unless \<open>a\<close> is \<open>null\<close> or \<open>undefined\<close>, and the unresolved marker
  is \<open>undefined\<close>. The source has no function of this name.
\<close>

definition nullish_or :: "js \<Rightarrow> js \<Rightarrow> js" where
  "nullish_or a b = (if a = Null \<or> a = Undefined then b else a)"

definition resolveFieldGroup :: "js \<Rightarrow> js \<Rightarrow> js" where
  "resolveFieldGroup primary fallback = nullish_or primary (nullish_or fallback Undefined)"

text \<open>
  The shapes a source of a field group has when it is a row, a list of rows or missing:
  an object, an array, \<open>null\<close> or \<open>undefined\<close>. On these, present and truthy agree.
\<close>

definition row_or_missing :: "js \<Rightarrow> bool" where
  "row_or_missing v =
     (case v of Obj kvs \<Rightarrow> True | Arr xs \<Rightarrow> True | Null \<Rightarrow> True | Undefined \<Rightarrow> True
      | _ \<Rightarrow> False)"

text \<open>
  What the hook receives from its collaborators: the signed-in user's id (\<open>None\<close> when
  \<open>supabase.auth.getUser\<close> reports an error or no user), and the outcome of \<open>fetch\<close>
  (\<open>None\<close> when it rejects), a response with its status code and its body as
  \<open>response.json()\<close> decodes it (\<open>None\<close> when the body is not JSON).
\<close>

record http_response =
  status_code :: nat
  json_body :: "js option"

text \<open>\<open>response.ok\<close>: the status is in the range 200 to 299.\<close>

definition ok :: "http_response \<Rightarrow> bool" where
  "ok res = (200 \<le> status_code res \<and> status_code res \<le> 299)"

record hook_state =
  review :: "js option"
  loading :: bool
  error :: "string option"

text \<open>
  The state of the hook after \<open>fetchReview\<close> has run once from the initial state
  (no review, loading, no error). Every throw inside \<open>fetchReview\<close> lands in its one
  \<open>catch\<close>, which sets the error message and leaves the review \<open>null\<close>; \<open>finally\<close>
  clears \<open>loading\<close>. The second \<open>try\<close> block, after the object literal, decodes the
  results once more only to log them, and catches what that throws.
\<close>

definition fetch_failed :: hook_state where
  "fetch_failed = \<lparr>review = None, loading = False, error = Some ''Failed to fetch review details''\<rparr>"

definition fetchReview ::
  "(string \<Rightarrow> js option) \<Rightarrow> string option \<Rightarrow> http_response option \<Rightarrow> hook_state" where
  "fetchReview JSON_parse user response =
     (case user of
        None \<Rightarrow> fetch_failed
      | Some uid \<Rightarrow>
          (case response of
             None \<Rightarrow> fetch_failed
           | Some res \<Rightarrow>
               if \<not> ok res then fetch_failed
               else (case json_body res of
                       None \<Rightarrow> fetch_failed
                     | Some reviewData \<Rightarrow>
                         if \<not> truthy reviewData then fetch_failed
                         else \<lparr>review = Some (detailedReview JSON_parse reviewData),
                               loading = False, error = None\<rparr>)))"


section \<open>The review detail page: \<open>ReviewDetailPage\<close>\<close>

text \<open>\<open>getStatusIcon\<close>: a \<open>switch\<close> on the status string with a default branch.\<close>

datatype status_icon = CheckCircle | ClockYellow | XCircle | ClockSlate

definition getStatusIcon :: "js \<Rightarrow> status_icon" where
  "getStatusIcon status =
     (if status = Str ''completed'' then CheckCircle
      else if status = Str ''pending'' then ClockYellow
      else if status = Str ''failed'' then XCircle
      else ClockSlate)"

text \<open>
  The blocks of the page, in the order of the JSX. A block written
  \<open>{cond && (<Card ...>)}\<close> is selected when \<open>cond\<close> is truthy, and only then is what
  stands inside it evaluated. \<open>page_sections\<close> is the list of the selected blocks;
  \<open>render_throws\<close> below says whether evaluating the page throws before it can return
  them.
\<close>

datatype block =
    Header status_icon
  | ScoreOverview
  | CodeDisplay
  | AIAnalysis
  | PendingState
  | FailedState
  | QuickStats
  | QuickStatsScore
  | QuickStatsPending
  | QuickStatsFailed
  | Actions
  | ReviewDetails

definition show_when :: "bool \<Rightarrow> block \<Rightarrow> block list" where
  "show_when cond s = (if cond then [s] else [])"

definition page_sections :: "js \<Rightarrow> block list" where
  "page_sections r =
     (let status = get_prop r ''status'';
          score = get_prop r ''score'';
          ai_analysis = get_prop r ''ai_analysis'';
          detailed_issues = get_prop r ''detailed_issues''
      in [Header (getStatusIcon status)]
         @ show_when (status = Str ''completed'' \<and> truthy score \<and> truthy ai_analysis) ScoreOverview
         @ [CodeDisplay]
         @ show_when (status = Str ''completed'' \<and> truthy ai_analysis \<and> truthy detailed_issues)
             AIAnalysis
         @ show_when (status = Str ''pending'') PendingState
         @ show_when (status = Str ''failed'') FailedState
         @ [QuickStats]
         @ show_when (status = Str ''completed'' \<and> truthy score) QuickStatsScore
         @ show_when (status = Str ''pending'') QuickStatsPending
         @ show_when (status = Str ''failed'') QuickStatsFailed
         @ [Actions, ReviewDetails])"

text \<open>
  The expressions of the page that can throw a TypeError on decoded data, block by block.
  Calls into React and the component library are taken to return; what they do with the
  elements and props they are given is not modelled.

  Always evaluated: \<open>formatDate(review.created_at)\<close> and the date in the details card
  convert \<open>created_at\<close>; \<open>calculateProcessingTime\<close> and the details card convert
  \<open>completed_at\<close> when it is truthy; the template literal converts \<open>github_path\<close> when
  it and \<open>github_repo\<close> are truthy; \<open>review.language?.toLowerCase()\<close> calls a method
  that only a string has.
\<close>

definition shell_throws :: "js \<Rightarrow> bool" where
  "shell_throws r =
     (let created_at = get_prop r ''created_at'';
          completed_at = get_prop r ''completed_at'';
          github_repo = get_prop r ''github_repo'';
          github_path = get_prop r ''github_path'';
          language = get_prop r ''language''
      in \<not> converts created_at \<or>
         (truthy completed_at \<and> \<not> converts completed_at) \<or>
         (truthy github_repo \<and> truthy github_path \<and> \<not> converts github_path) \<or>
         (\<not> nullish language \<and> \<not> is_string language))"

text \<open>
  The score card: \<open>getScoreColor(review.score)\<close> compares the score with numbers;
  \<open>Object.entries(review.ai_analysis.categories)\<close> throws on a nullish argument and
  otherwise lists the own properties; for each entry \<open>data.score\<close> is read, which throws
  on a nullish \<open>data\<close>, and compared with numbers.
\<close>

definition score_overview_throws :: "js \<Rightarrow> bool" where
  "score_overview_throws r =
     (let categories = get_prop (get_prop r ''ai_analysis'') ''categories''
      in \<not> converts (get_prop r ''score'') \<or>
         nullish categories \<or>
         list_ex (\<lambda>data. nullish data \<or> \<not> converts (get_prop data ''score''))
           (map snd (own_props categories)))"

text \<open>
  The analysis card: \<open>strengths.map\<close>, \<open>improvements.map\<close> and \<open>detailed_issues.map\<close>
  are calls of a method that only an array has, and the callback of the last reads
  \<open>issue.id\<close>, which throws on a nullish row.
\<close>

definition ai_analysis_throws :: "js \<Rightarrow> bool" where
  "ai_analysis_throws r =
     (let ai_analysis = get_prop r ''ai_analysis'';
          detailed_issues = get_prop r ''detailed_issues''
      in \<not> isArray (get_prop ai_analysis ''strengths'') \<or>
         \<not> isArray (get_prop ai_analysis ''improvements'') \<or>
         \<not> isArray detailed_issues \<or>
         list_ex nullish (elements detailed_issues))"

text \<open>
  The score part of the quick stats: \<open>getScoreColor(review.score)\<close> and
  \<open>review.score * 10\<close> convert the score; under \<open>review.detailed_issues &&\<close> the three
  \<open>detailed_issues.filter\<close> calls need an array, and their callbacks read \<open>i.severity\<close>.
\<close>

definition quick_stats_throws :: "js \<Rightarrow> bool" where
  "quick_stats_throws r =
     (let detailed_issues = get_prop r ''detailed_issues''
      in \<not> converts (get_prop r ''score'') \<or>
         (truthy detailed_issues \<and>
          (\<not> isArray detailed_issues \<or> list_ex nullish (elements detailed_issues))))"

definition render_throws :: "js \<Rightarrow> bool" where
  "render_throws r =
     (shell_throws r \<or>
      (ScoreOverview \<in> set (page_sections r) \<and> score_overview_throws r) \<or>
      (AIAnalysis \<in> set (page_sections r) \<and> ai_analysis_throws r) \<or>
      (QuickStatsScore \<in> set (page_sections r) \<and> quick_stats_throws r))"

text \<open>
  The page itself: the skeleton while loading, the alert when \<open>error || !review\<close>;
  otherwise the evaluation of the page either throws or returns the selected blocks.
\<close>

datatype page = Skeleton | ErrorAlert string | RenderError | Detail "block list"

definition ReviewDetailPage :: "hook_state \<Rightarrow> page" where
  "ReviewDetailPage h =
     (if loading h then Skeleton
      else let err = (case error h of Some e \<Rightarrow> e | None \<Rightarrow> [])
           in (case review h of
                 None \<Rightarrow> ErrorAlert (if err \<noteq> [] then err else ''Review not found'')
               | Some r \<Rightarrow>
                   if err \<noteq> [] then ErrorAlert err
                   else if render_throws r then RenderError
                   else Detail (page_sections r)))"

text \<open>
  The shapes the interface \<open>DetailedReview\<close> declares for what the page reads, each
  field allowed to be missing where the page guards it. A printed field is a primitive
  (React prints strings and numbers and skips booleans, \<open>null\<close> and \<open>undefined\<close>; an
  object is not a valid child); a text field is a string or missing; an analysis has a
  summary, arrays of \<open>strengths\<close> and \<open>improvements\<close> and a \<open>categories\<close> object whose
  entries are objects with a numeric \<open>score\<close>; the issues are an array of objects; the
  code is a string.
\<close>

definition scalar :: "js \<Rightarrow> bool" where
  "scalar v = (case v of Obj kvs \<Rightarrow> False | Arr xs \<Rightarrow> False | _ \<Rightarrow> True)"

definition scalars :: "js \<Rightarrow> string list \<Rightarrow> bool" where
  "scalars v ks = list_all (\<lambda>k. scalar (get_prop v k)) ks"

definition text_or_missing :: "js \<Rightarrow> bool" where
  "text_or_missing v = (case v of Str s \<Rightarrow> True | Null \<Rightarrow> True | Undefined \<Rightarrow> True | _ \<Rightarrow> False)"

definition category_shaped :: "js \<Rightarrow> bool" where
  "category_shaped data =
     (case data of
        Obj kvs \<Rightarrow>
          (case map_of kvs ''score'' of Some (Num n) \<Rightarrow> True | _ \<Rightarrow> False) \<and>
          scalars data [''issues'', ''suggestions'']
      | _ \<Rightarrow> False)"

definition analysis_shaped :: "js \<Rightarrow> bool" where
  "analysis_shaped a =
     (case a of
        Obj kvs \<Rightarrow>
          scalar (get_prop a ''summary'') \<and>
          (case get_prop a ''strengths'' of Arr xs \<Rightarrow> list_all scalar xs | _ \<Rightarrow> False) \<and>
          (case get_prop a ''improvements'' of Arr xs \<Rightarrow> list_all scalar xs | _ \<Rightarrow> False) \<and>
          (case get_prop a ''categories'' of
             Obj cs \<Rightarrow> list_all category_shaped (map snd cs)
           | _ \<Rightarrow> False)
      | _ \<Rightarrow> False)"

definition issue_shaped :: "js \<Rightarrow> bool" where
  "issue_shaped row =
     (case row of
        Obj kvs \<Rightarrow>
          scalars row [''id'', ''type'', ''severity'', ''line'', ''column_number'', ''title'',
                       ''message'', ''suggestion'', ''code_snippet'', ''fixed_code'']
      | _ \<Rightarrow> False)"

definition issues_shaped :: "js \<Rightarrow> bool" where
  "issues_shaped d = (case d of Arr rows \<Rightarrow> list_all issue_shaped rows | _ \<Rightarrow> False)"

definition declared_shape :: "js \<Rightarrow> bool" where
  "declared_shape r =
     (text_or_missing (get_prop r ''language'') \<and>
      text_or_missing (get_prop r ''created_at'') \<and>
      text_or_missing (get_prop r ''completed_at'') \<and>
      text_or_missing (get_prop r ''github_path'') \<and>
      is_string (get_prop r ''code'') \<and>
      scalars r [''title'', ''description'', ''review_type'', ''lines_of_code'',
                 ''improvement_rate'', ''issues'', ''suggestions'', ''github_repo''] \<and>
      scalars (get_prop r ''metrics'')
        [''complexity'', ''maintainability_index'', ''cyclomatic_complexity'',
         ''cognitive_complexity'', ''duplicated_lines'', ''test_coverage''] \<and>
      (get_prop r ''ai_analysis'' = Undefined \<or> analysis_shaped (get_prop r ''ai_analysis'')) \<and>
      issues_shaped (get_prop r ''detailed_issues''))"

section \<open>The backend operation behind the hook's request\<close>

text \<open>
  Modelled from the spec: the operation \<open>aggregate(reviewId, callerUserId)\<close> that answers
  \<open>GET /review/{reviewId}?user_id={callerUserId}\<close>. Its code is not among the source
  files; only its caller, \<open>useReviewDetail\<close>, is. The record store holds the five
  collections, each keyed by the review id. Step 1 of the spec: the review is fetched by
  id, an absent review fails with \<open>NotFound\<close>, and a review whose \<open>user_id\<close> is not the
  caller's fails with \<open>Forbidden\<close>. A review that passes is returned joined with its
  linked rows under the names the hook reads; the merge of steps 2 to 5 is the hook's
  \<open>detailedReview\<close>.
\<close>

datatype aggregate_error = NotFound | Forbidden

record record_store =
  reviews :: "(string \<times> js) list"
  code_reviews :: "(string \<times> js) list"
  ai_analyses :: "(string \<times> js) list"
  review_metrics :: "(string \<times> js) list"
  review_issues :: "(string \<times> js list) list"

definition linked :: "(string \<times> js) list \<Rightarrow> string \<Rightarrow> js" where
  "linked rows reviewId = (case map_of rows reviewId of Some v \<Rightarrow> v | None \<Rightarrow> Null)"

definition aggregate :: "record_store \<Rightarrow> string \<Rightarrow> string \<Rightarrow> aggregate_error + js" where
  "aggregate store reviewId callerUserId =
     (case map_of (reviews store) reviewId of
        None \<Rightarrow> Inl NotFound
      | Some r \<Rightarrow>
          if get_prop r ''user_id'' \<noteq> Str callerUserId then Inl Forbidden
          else Inr (Obj
            (assign ''detailed_issues''
               (Arr (case map_of (review_issues store) reviewId of Some is \<Rightarrow> is | None \<Rightarrow> []))
            (assign ''metrics'' (linked (review_metrics store) reviewId)
            (assign ''ai_analysis'' (linked (ai_analyses store) reviewId)
            (assign ''code_data'' (linked (code_reviews store) reviewId)
            (own_props r)))))))"

text \<open>
  Modelled from the spec: the inbound interface of section 6, the merged review with 200,
  404 for \<open>NotFound\<close> and 403 for \<open>Forbidden\<close>, the two failures with no body.
\<close>

definition respond :: "aggregate_error + js \<Rightarrow> http_response" where
  "respond result =
     (case result of
        Inl NotFound \<Rightarrow> \<lparr>status_code = 404, json_body = None\<rparr>
      | Inl Forbidden \<Rightarrow> \<lparr>status_code = 403, json_body = None\<rparr>
      | Inr v \<Rightarrow> \<lparr>status_code = 200, json_body = Some v\<rparr>)"

section \<open>The history page: \<open>HistoryPage\<close>\<close>

text \<open>
  The promise chain of the fetch effect: a rejected \<open>fetch\<close>, a response that is not
  \<open>ok\<close> (the \<open>throw\<close> in the first \<open>then\<close>) and a body that is not JSON all reach
  \<open>catch\<close>, which stores the empty array; decoded data that is falsy or not an array
  stores the empty array too; an array is stored as it is.
\<close>

definition fetchHistory :: "http_response option \<Rightarrow> js list" where
  "fetchHistory response =
     (case response of
        None \<Rightarrow> []
      | Some res \<Rightarrow>
          if \<not> ok res then []
          else (case json_body res of
                  None \<Rightarrow> []
                | Some data \<Rightarrow>
                    if \<not> truthy data \<or> \<not> isArray data then []
                    else (case data of Arr xs \<Rightarrow> xs | _ \<Rightarrow> [])))"

text \<open>
  A row of the history, at the shape the page reads it: \<open>language\<close>, \<open>title\<close> and
  \<open>code\<close> are strings or missing (the page guards each with \<open>?.\<close>), and \<open>created_at\<close>
  is what \<open>new Date\<close> is given.
\<close>

record history_item =
  item_id :: js
  title :: "string option"
  language :: "string option"
  code :: "string option"
  created_at :: js

text \<open>
  A stored row is read at this shape when it is an object whose \<open>title\<close>, \<open>language\<close>
  and \<open>code\<close> are each a string, \<open>null\<close> or absent and whose \<open>created_at\<close> is a string;
  on such rows neither the filter, the sort nor the cards throw. Any other row (a
  \<open>null\<close> row, a field on which \<open>toLowerCase\<close> is not a function) is not read: where
  the page first dereferences it, and so whether it throws, depends on the query and on
  the other rows, and this model does not say. \<open>as_item\<close> is \<open>None\<close> there.
\<close>

definition opt_string :: "js \<Rightarrow> string option option" where
  "opt_string v =
     (case v of
        Str s \<Rightarrow> Some (Some s)
      | Null \<Rightarrow> Some None
      | Undefined \<Rightarrow> Some None
      | _ \<Rightarrow> None)"

definition as_item :: "js \<Rightarrow> history_item option" where
  "as_item v =
     (case v of
        Obj kvs \<Rightarrow>
          (case (opt_string (get_prop v ''title''), opt_string (get_prop v ''language''),
                 opt_string (get_prop v ''code''), get_prop v ''created_at'') of
             (Some t, Some l, Some c, Str d) \<Rightarrow>
               Some \<lparr>item_id = get_prop v ''id'', title = t, language = l, code = c,
                     created_at = Str d\<rparr>
           | _ \<Rightarrow> None)
      | _ \<Rightarrow> None)"

text \<open>\<open>s.includes(q)\<close>: \<open>q\<close> occurs in \<open>s\<close> as a run of consecutive characters.\<close>

fun js_includes :: "string \<Rightarrow> string \<Rightarrow> bool" where
  "js_includes [] q = (q = [])"
| "js_includes (c # s) q = (prefix q (c # s) \<or> js_includes s q)"

text \<open>
  The filter callback. \<open>toLowerCase\<close> is the platform's and is a parameter.
  \<open>item.f?.toLowerCase().includes(...)\<close> is \<open>undefined\<close>, hence falsy, on a missing field.
\<close>

definition field_includes :: "(string \<Rightarrow> string) \<Rightarrow> string option \<Rightarrow> string \<Rightarrow> bool" where
  "field_includes toLowerCase field searchQuery =
     (case field of
        None \<Rightarrow> False
      | Some s \<Rightarrow> js_includes (toLowerCase s) (toLowerCase searchQuery))"

definition matchesSearch :: "(string \<Rightarrow> string) \<Rightarrow> string \<Rightarrow> history_item \<Rightarrow> bool" where
  "matchesSearch toLowerCase searchQuery item =
     (searchQuery = [] \<or>
      field_includes toLowerCase (language item) searchQuery \<or>
      field_includes toLowerCase (title item) searchQuery \<or>
      field_includes toLowerCase (code item) searchQuery)"

definition matchesLanguage :: "(string \<Rightarrow> string) \<Rightarrow> string \<Rightarrow> history_item \<Rightarrow> bool" where
  "matchesLanguage toLowerCase languageFilter item =
     (languageFilter = ''all'' \<or>
      (case language item of
         None \<Rightarrow> False
       | Some l \<Rightarrow> toLowerCase l = toLowerCase languageFilter))"

definition keeps :: "(string \<Rightarrow> string) \<Rightarrow> string \<Rightarrow> string \<Rightarrow> history_item \<Rightarrow> bool" where
  "keeps toLowerCase searchQuery languageFilter item =
     (matchesSearch toLowerCase searchQuery item \<and> matchesLanguage toLowerCase languageFilter item)"

text \<open>
  The sort callback. \<open>getTime\<close> stands for \<open>new Date(v).getTime()\<close>, the platform's, on
  values that are valid dates (milliseconds since the epoch); an invalid date gives NaN,
  which leaves the order to the engine and is outside this model.
\<close>

definition compareFn :: "(js \<Rightarrow> int) \<Rightarrow> string \<Rightarrow> history_item \<Rightarrow> history_item \<Rightarrow> int" where
  "compareFn getTime sortBy a b =
     (let aDate = getTime (created_at a);
          bDate = getTime (created_at b)
      in if sortBy = ''newest'' then bDate - aDate else aDate - bDate)"

text \<open>
  \<open>Array.prototype.sort\<close> with a comparator is a stable sort: it orders the elements so
  that the comparator is never positive on a pair in sequence, and keeps elements that
  compare equal in their former order. The engine's algorithm is its own; with a
  consistent comparator every stable sort returns the same array, and the model uses
  insertion from the right.
\<close>

fun insert_sorted :: "('a \<Rightarrow> 'a \<Rightarrow> int) \<Rightarrow> 'a \<Rightarrow> 'a list \<Rightarrow> 'a list" where
  "insert_sorted cmp x [] = [x]"
| "insert_sorted cmp x (y # ys) =
     (if cmp x y \<le> 0 then x # y # ys else y # insert_sorted cmp x ys)"

definition array_sort :: "('a \<Rightarrow> 'a \<Rightarrow> int) \<Rightarrow> 'a list \<Rightarrow> 'a list" where
  "array_sort cmp xs = foldr (insert_sorted cmp) xs []"

text \<open>
  The key the comparator orders by: \<open>compareFn\<close> is at most zero on \<open>a\<close>, \<open>b\<close> exactly
  when the key of \<open>a\<close> is at most the key of \<open>b\<close>.
\<close>

definition sort_key_of :: "(js \<Rightarrow> int) \<Rightarrow> string \<Rightarrow> history_item \<Rightarrow> int" where
  "sort_key_of getTime sortBy item =
     (if sortBy = ''newest'' then - getTime (created_at item) else getTime (created_at item))"

text \<open>
  \<open>filtered\<close>: \<open>history.filter(...).sort(...)\<close>, as a function of the fetched rows and of
  the page's state \<open>searchQuery\<close>, \<open>languageFilter\<close> (initially \<open>all\<close>) and \<open>sortBy\<close>
  (initially \<open>newest\<close>).
\<close>

definition filtered ::
  "(string \<Rightarrow> string) \<Rightarrow> (js \<Rightarrow> int) \<Rightarrow> string \<Rightarrow> string \<Rightarrow> string \<Rightarrow>
   history_item list \<Rightarrow> history_item list" where
  "filtered toLowerCase getTime searchQuery languageFilter sortBy history =
     array_sort (compareFn getTime sortBy)
       (filter (keeps toLowerCase searchQuery languageFilter) history)"

text \<open>
  The same with the arrays in a store, to tell a fresh array from one changed in place.
  An address is an index into the list of the arrays allocated so far. \<open>filter\<close>
  allocates its result; \<open>sort\<close> reorders the array it is called on and returns that
  array's address.
\<close>

definition heap_filter :: "('a \<Rightarrow> bool) \<Rightarrow> nat \<Rightarrow> 'a list list \<Rightarrow> nat \<times> 'a list list" where
  "heap_filter p a heap = (length heap, heap @ [filter p (heap ! a)])"

definition heap_sort ::
  "('a \<Rightarrow> 'a \<Rightarrow> int) \<Rightarrow> nat \<Rightarrow> 'a list list \<Rightarrow> nat \<times> 'a list list" where
  "heap_sort cmp a heap = (a, heap[a := array_sort cmp (heap ! a)])"

definition filtered_in_heap ::
  "(string \<Rightarrow> string) \<Rightarrow> (js \<Rightarrow> int) \<Rightarrow> string \<Rightarrow> string \<Rightarrow> string \<Rightarrow>
   nat \<Rightarrow> history_item list list \<Rightarrow> nat \<times> history_item list list" where
  "filtered_in_heap toLowerCase getTime searchQuery languageFilter sortBy history heap =
     (case heap_filter (keeps toLowerCase searchQuery languageFilter) history heap of
        (kept, heap') \<Rightarrow> heap_sort (compareFn getTime sortBy) kept heap')"

text \<open>
  What the page shows, when every stored row is read (\<open>None\<close> otherwise): \<open>filtered\<close> is
  computed first, on every render; then the loading line, or one card per row of
  \<open>filtered\<close> followed by the "No matching reviews found." card when
  \<open>!loading && filtered.length === 0\<close>.
\<close>

datatype history_view = LoadingHistory | HistoryCards "history_item list" bool

definition HistoryPage ::
  "(string \<Rightarrow> string) \<Rightarrow> (js \<Rightarrow> int) \<Rightarrow> string \<Rightarrow> string \<Rightarrow> string \<Rightarrow>
   bool \<Rightarrow> js list \<Rightarrow> history_view option" where
  "HistoryPage toLowerCase getTime searchQuery languageFilter sortBy is_loading history =
     (case those (map as_item history) of
        None \<Rightarrow> None
      | Some rows \<Rightarrow>
          let shown = filtered toLowerCase getTime searchQuery languageFilter sortBy rows
          in Some (if is_loading then LoadingHistory
                   else HistoryCards shown (\<not> is_loading \<and> length shown = 0)))"

section \<open>Sample values of the platform functions\<close>

text \<open>
  The platform functions at the arguments the examples below use: \<open>JSON.parse\<close> on two
  texts (every other text counts as not JSON here), \<open>toLowerCase\<close> on ASCII letters, and
  \<open>new Date(...).getTime()\<close> on four ISO date strings, two of which write the same
  instant; an analysis of the declared shape, five history rows and a record store.
\<close>

definition sample_parse :: "string \<Rightarrow> js option" where
  "sample_parse s =
     (if s = ''{\"analysis\":{\"summary\":\"ok\"}}''
        then Some (Obj [(''analysis'', Obj [(''summary'', Str ''ok'')])])
      else if s = ''{\"analysis\":{\"summary\":\"stale\"},\"metrics\":{\"complexity\":9},\"issues\":[{\"id\":7}]}''
        then Some (Obj [(''analysis'', Obj [(''summary'', Str ''stale'')]),
                        (''metrics'', Obj [(''complexity'', Num 9)]),
                        (''issues'', Arr [Obj [(''id'', Num 7)]])])
      else None)"

definition sample_analysis :: js where
  "sample_analysis =
     Obj [(''summary'', Str ''Readable code''),
          (''strengths'', Arr [Str ''Clear names'']),
          (''improvements'', Arr [Str ''Add tests'']),
          (''categories'',
             Obj [(''performance'', Obj [(''score'', Num 8), (''issues'', Num 1), (''suggestions'', Num 2)]),
                  (''security'', Obj [(''score'', Num 9), (''issues'', Num 0), (''suggestions'', Num 1)]),
                  (''maintainability'', Obj [(''score'', Num 7), (''issues'', Num 2), (''suggestions'', Num 2)]),
                  (''style'', Obj [(''score'', Num 8), (''issues'', Num 1), (''suggestions'', Num 0)])])]"

definition ascii_lower :: "string \<Rightarrow> string" where
  "ascii_lower s =
     map (\<lambda>c. case map_of (zip ''ABCDEFGHIJKLMNOPQRSTUVWXYZ'' ''abcdefghijklmnopqrstuvwxyz'') c of
                Some l \<Rightarrow> l
              | None \<Rightarrow> c) s"

definition row_utils :: history_item where
  "row_utils = \<lparr>item_id = Str ''r1'', title = Some ''Sort Utils'', language = Some ''Python'',
                 code = Some ''def f(): pass'', created_at = Str ''2024-01-01T00:00:00Z''\<rparr>"

definition row_parser :: history_item where
  "row_parser = \<lparr>item_id = Str ''r2'', title = Some ''Parser'', language = Some ''TypeScript'',
                  code = None, created_at = Str ''2024-01-03T00:00:00Z''\<rparr>"

definition row_cli :: history_item where
  "row_cli = \<lparr>item_id = Str ''r3'', title = Some ''PYTHON cli'', language = None,
               code = Some ''print(1)'', created_at = Str ''2024-01-02T00:00:00Z''\<rparr>"

definition row_utils_copy :: history_item where
  "row_utils_copy = \<lparr>item_id = Str ''r5'', title = Some ''Sort Utils v2'', language = Some ''Python'',
                      code = Some ''def g(): pass'', created_at = Str ''2024-01-01T00:00:00.000Z''\<rparr>"

definition row_bare :: history_item where
  "row_bare = \<lparr>item_id = Str ''r4'', title = None, language = None,
                code = None, created_at = Str ''2024-01-01T00:00:00Z''\<rparr>"

definition sample_store :: record_store where
  "sample_store =
     \<lparr>reviews = [(''R1'', Obj [(''id'', Str ''R1''), (''user_id'', Str ''alice''),
                                (''status'', Str ''completed'')])],
      code_reviews = [(''R1'', Obj [(''code'', Str ''x = 1'')])],
      ai_analyses = [],
      review_metrics = [],
      review_issues = []\<rparr>"

definition sample_time :: "js \<Rightarrow> int" where
  "sample_time v =
     (if v = Str ''2024-01-01T00:00:00Z'' then 1704067200000
      else if v = Str ''2024-01-01T00:00:00.000Z'' then 1704067200000
      else if v = Str ''2024-01-02T00:00:00Z'' then 1704153600000
      else if v = Str ''2024-01-03T00:00:00Z'' then 1704240000000
      else 0)"

section \<open>Properties of the merge\<close>

lemma map_of_assign: "map_of (assign k v kvs) = (map_of kvs)(k \<mapsto> v)"
  by (induction kvs) auto

lemma prop_assign_same: "get_prop (Obj (assign k v kvs)) k = v"
  by (simp add: map_of_assign)

lemma prop_assign_other: "k' \<noteq> k \<Longrightarrow> get_prop (Obj (assign k v kvs)) k' = get_prop (Obj kvs) k'"
  by (simp add: map_of_assign)

lemma dec_digits: "set (dec n) \<subseteq> set ''0123456789''"
proof (induction n rule: dec.induct)
  case (1 n)
  have d: "''0123456789'' ! m \<in> set ''0123456789''" if "m < 10" for m
    using that by (intro nth_mem) simp
  show ?case
  proof (cases "n < 10")
    case True
    then show ?thesis using d [of n] by (subst dec.simps) simp
  next
    case False
    have "n mod 10 < 10" by simp
    with False 1 d [of "n mod 10"] show ?thesis by (subst dec.simps) simp
  qed
qed

lemma dec_not_identifier: "CHR ''s'' \<in> set k \<or> CHR ''c'' \<in> set k \<Longrightarrow> dec n \<noteq> k"
  using dec_digits [of n] by auto

lemma map_of_index_keys:
  "CHR ''s'' \<in> set k \<or> CHR ''c'' \<in> set k \<Longrightarrow> length ks = length vs \<Longrightarrow>
   map_of (zip (map dec ks) vs) k = None"
proof (induction ks arbitrary: vs)
  case Nil
  then show ?case by simp
next
  case (Cons a ks)
  then obtain v vs' where "vs = v # vs'" by (cases vs) auto
  with Cons dec_not_identifier [of k a] show ?case by auto
qed

lemma prop_own_props:
  "CHR ''s'' \<in> set k \<or> CHR ''c'' \<in> set k \<Longrightarrow> get_prop (Obj (own_props v)) k = get_prop v k"
  by (cases v) (simp_all add: map_of_index_keys)

lemma dec_not_name: "\<not> set k \<subseteq> set ''0123456789'' \<Longrightarrow> dec n \<noteq> k"
  using dec_digits [of n] by auto

lemma map_of_index_names:
  "\<not> set k \<subseteq> set ''0123456789'' \<Longrightarrow> length ks = length vs \<Longrightarrow>
   map_of (zip (map dec ks) vs) k = None"
proof (induction ks arbitrary: vs)
  case Nil
  then show ?case by simp
next
  case (Cons a ks)
  then obtain v vs' where "vs = v # vs'" by (cases vs) auto
  with Cons dec_not_name [of k a] show ?case by auto
qed

lemma prop_own_props_name:
  "\<not> set k \<subseteq> set ''0123456789'' \<Longrightarrow> get_prop (Obj (own_props v)) k = get_prop v k"
  by (cases v) (simp_all add: map_of_index_names)

lemma or_chain: "js_or p (js_or f d) = first_truthy p f d"
  by (simp add: js_or_def first_truthy_def)

lemma merged_ai_analysis:
  "get_prop (detailedReview P rd) ''ai_analysis'' =
     first_truthy (get_prop rd ''ai_analysis'') (get_prop (parsedResults P rd) ''analysis'') Undefined"
  by (simp add: detailedReview_def Let_def prop_assign_other prop_assign_same or_chain del: get_prop.simps)

lemma merged_metrics:
  "get_prop (detailedReview P rd) ''metrics'' =
     first_truthy (get_prop rd ''metrics'') (get_prop (parsedResults P rd) ''metrics'') Undefined"
  by (simp add: detailedReview_def Let_def prop_assign_other prop_assign_same or_chain del: get_prop.simps)

lemma merged_detailed_issues:
  "get_prop (detailedReview P rd) ''detailed_issues'' =
     first_truthy (get_prop rd ''detailed_issues'') (get_prop (parsedResults P rd) ''issues'') (Arr [])"
  by (simp add: detailedReview_def Let_def prop_assign_other prop_assign_same or_chain del: get_prop.simps)

lemma merged_score:
  "get_prop (detailedReview P rd) ''score'' = get_prop rd ''score''"
  by (simp add: detailedReview_def Let_def prop_assign_other prop_own_props del: get_prop.simps)

lemma status_kept:
  "get_prop (detailedReview P rd) ''status'' = get_prop rd ''status''"
  by (simp add: detailedReview_def Let_def prop_assign_other prop_own_props del: get_prop.simps)

lemma merged_other:
  "k \<noteq> ''code'' \<Longrightarrow> k \<noteq> ''ai_analysis'' \<Longrightarrow> k \<noteq> ''metrics'' \<Longrightarrow> k \<noteq> ''detailed_issues'' \<Longrightarrow>
   \<not> set k \<subseteq> set ''0123456789'' \<Longrightarrow>
   get_prop (detailedReview P rd) k = get_prop rd k"
  by (simp add: detailedReview_def Let_def prop_assign_other prop_own_props_name del: get_prop.simps)

lemma fetchReview_ok:
  "ok res \<Longrightarrow> json_body res = Some rd \<Longrightarrow> truthy rd \<Longrightarrow>
   fetchReview P (Some uid) (Some res) =
     \<lparr>review = Some (detailedReview P rd), loading = False, error = None\<rparr>"
  by (simp add: fetchReview_def)

lemma parsedResults_malformed:
  "get_prop (get_prop rd ''code_data'') ''results'' = Str s \<Longrightarrow> P s = None \<Longrightarrow>
   parsedResults P rd = Undefined"
  by (simp add: parsedResults_def Let_def)

lemma show_when_set: "set (show_when c s) = (if c then {s} else {})"
  by (simp add: show_when_def)

text \<open>
  C1. The merged review's \<open>status\<close> is the \<open>status\<close> of the fetched review record: the
  spread copies it, and none of the four properties written after the spread is
  \<open>status\<close>, whatever the linked analysis, metrics and issues or the embedded results
  payload hold.
\<close>

theorem merged_status_verbatim:
  "get_prop (detailedReview JSON_parse reviewData) ''status'' = get_prop reviewData ''status''"
  by (rule status_kept)

text \<open>
  A pending review whose linked analysis and code row carry a \<open>status\<close> of their own, and
  whose payload decodes: the merged status is still \<open>pending\<close>.
\<close>

theorem merged_status_verbatim_witness:
  "get_prop (detailedReview sample_parse
      (Obj [(''id'', Str ''R2''), (''status'', Str ''pending''),
            (''ai_analysis'', Obj [(''status'', Str ''completed'')]),
            (''code_data'', Obj [(''status'', Str ''failed''),
               (''results'', Str ''{\"analysis\":{\"summary\":\"ok\"}}'')])])) ''status''
   = Str ''pending''"
  using merged_status_verbatim [of sample_parse
      "Obj [(''id'', Str ''R2''), (''status'', Str ''pending''),
            (''ai_analysis'', Obj [(''status'', Str ''completed'')]),
            (''code_data'', Obj [(''status'', Str ''failed''),
               (''results'', Str ''{\"analysis\":{\"summary\":\"ok\"}}'')])]"]
  by simp

text \<open>
  C2. A linked record wins over the payload's sub-field of the same group: a linked
  analysis object, a linked metrics object and a linked array of issue rows are each
  what the merged review holds, whatever the parsed payload offers. The groups are
  resolved one by one: with a linked metrics object, no linked analysis and an analysis
  object in the parsed payload, the merged review takes the metrics from the linked row
  and the analysis from the payload.
\<close>

theorem linked_record_wins:
  "(get_prop reviewData ''ai_analysis'' = Obj a \<longrightarrow>
      get_prop (detailedReview JSON_parse reviewData) ''ai_analysis'' = Obj a) \<and>
   (get_prop reviewData ''metrics'' = Obj m \<longrightarrow>
      get_prop (detailedReview JSON_parse reviewData) ''metrics'' = Obj m) \<and>
   (get_prop reviewData ''detailed_issues'' = Arr rows \<longrightarrow>
      get_prop (detailedReview JSON_parse reviewData) ''detailed_issues'' = Arr rows) \<and>
   (get_prop reviewData ''metrics'' = Obj m \<and>
    get_prop reviewData ''ai_analysis'' \<in> {Undefined, Null} \<and>
    get_prop (parsedResults JSON_parse reviewData) ''analysis'' = Obj b \<longrightarrow>
      get_prop (detailedReview JSON_parse reviewData) ''metrics'' = Obj m \<and>
      get_prop (detailedReview JSON_parse reviewData) ''ai_analysis'' = Obj b)"
  by (auto simp add: merged_ai_analysis merged_metrics merged_detailed_issues first_truthy_def
      simp del: get_prop.simps)

text \<open>
  The scenario of review R1 (linked metrics, analysis only in the payload text), and a
  review R4 whose linked analysis and issue rows conflict with a payload that has both.
\<close>

theorem linked_record_wins_witness:
  "get_prop (detailedReview sample_parse
      (Obj [(''id'', Str ''R1''), (''status'', Str ''completed''), (''score'', Num 8),
            (''metrics'', Obj [(''complexity'', Num 5)]),
            (''code_data'', Obj [(''results'', Str ''{\"analysis\":{\"summary\":\"ok\"}}'')])]))
      ''metrics'' = Obj [(''complexity'', Num 5)] \<and>
   get_prop (detailedReview sample_parse
      (Obj [(''id'', Str ''R1''), (''status'', Str ''completed''), (''score'', Num 8),
            (''metrics'', Obj [(''complexity'', Num 5)]),
            (''code_data'', Obj [(''results'', Str ''{\"analysis\":{\"summary\":\"ok\"}}'')])]))
      ''ai_analysis'' = Obj [(''summary'', Str ''ok'')] \<and>
   get_prop (detailedReview sample_parse
      (Obj [(''id'', Str ''R4''), (''status'', Str ''completed''),
            (''ai_analysis'', Obj [(''summary'', Str ''linked'')]),
            (''metrics'', Obj [(''complexity'', Num 5)]),
            (''detailed_issues'', Arr [Obj [(''id'', Num 1)]]),
            (''code_data'', Obj [(''results'',
               Str ''{\"analysis\":{\"summary\":\"stale\"},\"metrics\":{\"complexity\":9},\"issues\":[{\"id\":7}]}'')])]))
      ''ai_analysis'' = Obj [(''summary'', Str ''linked'')] \<and>
   get_prop (detailedReview sample_parse
      (Obj [(''id'', Str ''R4''), (''status'', Str ''completed''),
            (''ai_analysis'', Obj [(''summary'', Str ''linked'')]),
            (''metrics'', Obj [(''complexity'', Num 5)]),
            (''detailed_issues'', Arr [Obj [(''id'', Num 1)]]),
            (''code_data'', Obj [(''results'',
               Str ''{\"analysis\":{\"summary\":\"stale\"},\"metrics\":{\"complexity\":9},\"issues\":[{\"id\":7}]}'')])]))
      ''detailed_issues'' = Arr [Obj [(''id'', Num 1)]]"
  using linked_record_wins [where JSON_parse = sample_parse
      and reviewData = "Obj [(''id'', Str ''R1''), (''status'', Str ''completed''), (''score'', Num 8),
            (''metrics'', Obj [(''complexity'', Num 5)]),
            (''code_data'', Obj [(''results'', Str ''{\"analysis\":{\"summary\":\"ok\"}}'')])]"
      and m = "[(''complexity'', Num 5)]" and b = "[(''summary'', Str ''ok'')]"]
    linked_record_wins [where JSON_parse = sample_parse
      and reviewData = "Obj [(''id'', Str ''R4''), (''status'', Str ''completed''),
            (''ai_analysis'', Obj [(''summary'', Str ''linked'')]),
            (''metrics'', Obj [(''complexity'', Num 5)]),
            (''detailed_issues'', Arr [Obj [(''id'', Num 1)]]),
            (''code_data'', Obj [(''results'',
               Str ''{\"analysis\":{\"summary\":\"stale\"},\"metrics\":{\"complexity\":9},\"issues\":[{\"id\":7}]}'')])]"
      and a = "[(''summary'', Str ''linked'')]" and m = "[(''complexity'', Num 5)]"
      and rows = "[Obj [(''id'', Num 1)]]"]
  by (simp add: parsedResults_def sample_parse_def)

text \<open>
  C3, as the claim states it, fails: a results text that does not decode leaves the
  analysis unresolved only when no analysis is linked. Review R3 has such a text and a
  linked analysis, and its merged analysis is the linked one.
\<close>

theorem malformed_results_counterexample:
  "sample_parse ''{not json'' = None \<and>
   get_prop (get_prop
      (Obj [(''id'', Str ''R3''), (''status'', Str ''completed''),
            (''ai_analysis'', Obj [(''summary'', Str ''linked'')]),
            (''code_data'', Obj [(''code'', Str ''x = 1''), (''results'', Str ''{not json'')])])
      ''code_data'') ''results'' = Str ''{not json'' \<and>
   get_prop (detailedReview sample_parse
      (Obj [(''id'', Str ''R3''), (''status'', Str ''completed''),
            (''ai_analysis'', Obj [(''summary'', Str ''linked'')]),
            (''code_data'', Obj [(''code'', Str ''x = 1''), (''results'', Str ''{not json'')])]))
      ''ai_analysis'' \<noteq> Undefined"
  by (simp add: sample_parse_def merged_ai_analysis first_truthy_def)

text \<open>
  C3, amended. When the results field is a string that does not decode, the hook still
  ends with a review and no error; the failure is absorbed, and each group falls back to
  its linked value alone: the analysis and the metrics are the linked value when it is
  truthy and \<open>undefined\<close> otherwise, the issues are the linked value when it is truthy
  and the empty array otherwise.
\<close>

theorem malformed_results_absorbed:
  assumes "ok res" and "json_body res = Some reviewData" and "truthy reviewData"
    and "get_prop (get_prop reviewData ''code_data'') ''results'' = Str s"
    and "JSON_parse s = None"
  shows "fetchReview JSON_parse (Some uid) (Some res) =
           \<lparr>review = Some (detailedReview JSON_parse reviewData), loading = False, error = None\<rparr> \<and>
         get_prop (detailedReview JSON_parse reviewData) ''ai_analysis'' =
           (if truthy (get_prop reviewData ''ai_analysis'')
            then get_prop reviewData ''ai_analysis'' else Undefined) \<and>
         get_prop (detailedReview JSON_parse reviewData) ''metrics'' =
           (if truthy (get_prop reviewData ''metrics'')
            then get_prop reviewData ''metrics'' else Undefined) \<and>
         get_prop (detailedReview JSON_parse reviewData) ''detailed_issues'' =
           (if truthy (get_prop reviewData ''detailed_issues'')
            then get_prop reviewData ''detailed_issues'' else Arr [])"
  using assms
  by (simp add: fetchReview_ok merged_ai_analysis merged_metrics merged_detailed_issues
      parsedResults_malformed first_truthy_def)

text \<open>Review R3 without linked rows: analysis and metrics unresolved, no issues.\<close>

theorem malformed_results_absorbed_witness:
  "fetchReview sample_parse (Some ''u1'')
      (Some \<lparr>status_code = 200, json_body = Some
        (Obj [(''id'', Str ''R3''), (''status'', Str ''completed''),
              (''code_data'', Obj [(''code'', Str ''x = 1''), (''results'', Str ''{not json'')])])\<rparr>)
    = \<lparr>review = Some (detailedReview sample_parse
        (Obj [(''id'', Str ''R3''), (''status'', Str ''completed''),
              (''code_data'', Obj [(''code'', Str ''x = 1''), (''results'', Str ''{not json'')])])),
       loading = False, error = None\<rparr> \<and>
   get_prop (detailedReview sample_parse
        (Obj [(''id'', Str ''R3''), (''status'', Str ''completed''),
              (''code_data'', Obj [(''code'', Str ''x = 1''), (''results'', Str ''{not json'')])]))
      ''ai_analysis'' = Undefined \<and>
   get_prop (detailedReview sample_parse
        (Obj [(''id'', Str ''R3''), (''status'', Str ''completed''),
              (''code_data'', Obj [(''code'', Str ''x = 1''), (''results'', Str ''{not json'')])]))
      ''metrics'' = Undefined \<and>
   get_prop (detailedReview sample_parse
        (Obj [(''id'', Str ''R3''), (''status'', Str ''completed''),
              (''code_data'', Obj [(''code'', Str ''x = 1''), (''results'', Str ''{not json'')])]))
      ''detailed_issues'' = Arr []"
  using malformed_results_absorbed [where JSON_parse = sample_parse and uid = "''u1''"
      and s = "''{not json''"
      and res = "\<lparr>status_code = 200, json_body = Some
        (Obj [(''id'', Str ''R3''), (''status'', Str ''completed''),
              (''code_data'', Obj [(''code'', Str ''x = 1''), (''results'', Str ''{not json'')])])\<rparr>"
      and reviewData = "Obj [(''id'', Str ''R3''), (''status'', Str ''completed''),
              (''code_data'', Obj [(''code'', Str ''x = 1''), (''results'', Str ''{not json'')])]"]
  by (simp add: sample_parse_def ok_def)

text \<open>
  C5, as the claim states it, fails twice. With no issues linked and none in the payload
  the code yields the empty array, not the unresolved marker (review R5). A primary that
  is present but falsy, here an empty string, gives way to the fallback (review R6).
\<close>

theorem field_groups_counterexample:
  "get_prop (detailedReview sample_parse (Obj [(''id'', Str ''R5''), (''status'', Str ''completed'')]))
      ''detailed_issues''
   \<noteq> resolveFieldGroup
       (get_prop (Obj [(''id'', Str ''R5''), (''status'', Str ''completed'')]) ''detailed_issues'')
       (get_prop (parsedResults sample_parse (Obj [(''id'', Str ''R5''), (''status'', Str ''completed'')]))
          ''issues'') \<and>
   get_prop (detailedReview sample_parse
      (Obj [(''id'', Str ''R6''), (''ai_analysis'', Str []),
            (''code_data'', Obj [(''results'', Obj [(''analysis'', Obj [(''summary'', Str ''ok'')])])])]))
      ''ai_analysis''
   \<noteq> resolveFieldGroup
       (get_prop (Obj [(''id'', Str ''R6''), (''ai_analysis'', Str []),
            (''code_data'', Obj [(''results'', Obj [(''analysis'', Obj [(''summary'', Str ''ok'')])])])])
          ''ai_analysis'')
       (get_prop (parsedResults sample_parse
          (Obj [(''id'', Str ''R6''), (''ai_analysis'', Str []),
            (''code_data'', Obj [(''results'', Obj [(''analysis'', Obj [(''summary'', Str ''ok'')])])])]))
          ''analysis'')"
  by (simp add: merged_detailed_issues merged_ai_analysis first_truthy_def parsedResults_def
      resolveFieldGroup_def nullish_or_def)

lemma first_truthy_resolve:
  "row_or_missing p \<Longrightarrow> row_or_missing f \<Longrightarrow>
   first_truthy p f d = nullish_or (resolveFieldGroup p f) d"
  by (cases p; cases f)
     (simp_all add: row_or_missing_def first_truthy_def resolveFieldGroup_def nullish_or_def)

text \<open>
  C5, amended. The three groups follow one rule, \<open>first_truthy\<close>: the primary source
  when it is truthy, else the fallback when it is truthy, else the default, which is
  \<open>undefined\<close> for the analysis and the metrics and the empty array for the issues.
  Where both sources of a group are an object, an array, \<open>null\<close> or \<open>undefined\<close>, this
  is \<open>resolveFieldGroup\<close> for the analysis and the metrics, and \<open>resolveFieldGroup\<close>
  with the empty array in place of the unresolved marker for the issues.
\<close>

theorem field_groups_first_truthy:
  "get_prop (detailedReview JSON_parse reviewData) ''ai_analysis'' =
     first_truthy (get_prop reviewData ''ai_analysis'')
       (get_prop (parsedResults JSON_parse reviewData) ''analysis'') Undefined \<and>
   get_prop (detailedReview JSON_parse reviewData) ''metrics'' =
     first_truthy (get_prop reviewData ''metrics'')
       (get_prop (parsedResults JSON_parse reviewData) ''metrics'') Undefined \<and>
   get_prop (detailedReview JSON_parse reviewData) ''detailed_issues'' =
     first_truthy (get_prop reviewData ''detailed_issues'')
       (get_prop (parsedResults JSON_parse reviewData) ''issues'') (Arr []) \<and>
   (row_or_missing (get_prop reviewData ''ai_analysis'') \<and>
    row_or_missing (get_prop (parsedResults JSON_parse reviewData) ''analysis'') \<longrightarrow>
      get_prop (detailedReview JSON_parse reviewData) ''ai_analysis'' =
        resolveFieldGroup (get_prop reviewData ''ai_analysis'')
          (get_prop (parsedResults JSON_parse reviewData) ''analysis'')) \<and>
   (row_or_missing (get_prop reviewData ''metrics'') \<and>
    row_or_missing (get_prop (parsedResults JSON_parse reviewData) ''metrics'') \<longrightarrow>
      get_prop (detailedReview JSON_parse reviewData) ''metrics'' =
        resolveFieldGroup (get_prop reviewData ''metrics'')
          (get_prop (parsedResults JSON_parse reviewData) ''metrics'')) \<and>
   (row_or_missing (get_prop reviewData ''detailed_issues'') \<and>
    row_or_missing (get_prop (parsedResults JSON_parse reviewData) ''issues'') \<longrightarrow>
      get_prop (detailedReview JSON_parse reviewData) ''detailed_issues'' =
        nullish_or (resolveFieldGroup (get_prop reviewData ''detailed_issues'')
          (get_prop (parsedResults JSON_parse reviewData) ''issues'')) (Arr []))"
proof -
  have u: "nullish_or (resolveFieldGroup p f) Undefined = resolveFieldGroup p f" for p f
    by (simp add: resolveFieldGroup_def nullish_or_def)
  show ?thesis
    using first_truthy_resolve [of "get_prop reviewData ''ai_analysis''"
        "get_prop (parsedResults JSON_parse reviewData) ''analysis''" Undefined]
      first_truthy_resolve [of "get_prop reviewData ''metrics''"
        "get_prop (parsedResults JSON_parse reviewData) ''metrics''" Undefined]
      first_truthy_resolve [of "get_prop reviewData ''detailed_issues''"
        "get_prop (parsedResults JSON_parse reviewData) ''issues''" "Arr []"]
    by (simp add: merged_ai_analysis merged_metrics merged_detailed_issues u del: get_prop.simps)
qed

text \<open>
  Review R5, with nothing linked and no payload: analysis and metrics unresolved, no
  issues. Review R1, with linked metrics and the analysis in the payload text.
\<close>

theorem field_groups_first_truthy_witness:
  "get_prop (detailedReview sample_parse (Obj [(''id'', Str ''R5''), (''status'', Str ''completed'')]))
      ''ai_analysis'' = Undefined \<and>
   get_prop (detailedReview sample_parse (Obj [(''id'', Str ''R5''), (''status'', Str ''completed'')]))
      ''metrics'' = Undefined \<and>
   get_prop (detailedReview sample_parse (Obj [(''id'', Str ''R5''), (''status'', Str ''completed'')]))
      ''detailed_issues'' = Arr [] \<and>
   get_prop (detailedReview sample_parse
      (Obj [(''id'', Str ''R1''), (''status'', Str ''completed''), (''score'', Num 8),
            (''metrics'', Obj [(''complexity'', Num 5)]),
            (''code_data'', Obj [(''results'', Str ''{\"analysis\":{\"summary\":\"ok\"}}'')])]))
      ''ai_analysis'' = Obj [(''summary'', Str ''ok'')]"
  using field_groups_first_truthy [of sample_parse
      "Obj [(''id'', Str ''R5''), (''status'', Str ''completed'')]"]
    field_groups_first_truthy [of sample_parse
      "Obj [(''id'', Str ''R1''), (''status'', Str ''completed''), (''score'', Num 8),
            (''metrics'', Obj [(''complexity'', Num 5)]),
            (''code_data'', Obj [(''results'', Str ''{\"analysis\":{\"summary\":\"ok\"}}'')])]"]
  by (simp add: first_truthy_def parsedResults_def sample_parse_def row_or_missing_def
      resolveFieldGroup_def nullish_or_def)

section \<open>Properties of the detail page\<close>

lemma sample_analysis_truthy: "truthy sample_analysis"
  by (simp add: sample_analysis_def)

lemma sample_analysis_defined: "sample_analysis \<noteq> Undefined"
  by (simp add: sample_analysis_def)

lemma text_converts: "text_or_missing v \<Longrightarrow> converts v"
  by (cases v) (simp_all add: text_or_missing_def)

lemma text_language: "text_or_missing v \<Longrightarrow> nullish v \<or> is_string v"
  by (cases v) (simp_all add: text_or_missing_def nullish_def is_string_def)

lemma shaped_shell: "declared_shape r \<Longrightarrow> \<not> shell_throws r"
  using text_language [of "get_prop r ''language''"]
  by (auto simp add: declared_shape_def shell_throws_def Let_def text_converts simp del: get_prop.simps)

lemma category_ok: "category_shaped data \<Longrightarrow> \<not> nullish data \<and> converts (get_prop data ''score'')"
  by (cases data) (auto simp add: category_shaped_def nullish_def split: option.splits js.splits)

lemma analysis_arrays:
  "analysis_shaped a \<Longrightarrow> isArray (get_prop a ''strengths'') \<and> isArray (get_prop a ''improvements'')"
  by (cases a)
     (auto simp add: analysis_shaped_def isArray_def simp del: get_prop.simps split: js.splits)

lemma shaped_score_overview:
  assumes "analysis_shaped (get_prop r ''ai_analysis'')" and "converts (get_prop r ''score'')"
  shows "\<not> score_overview_throws r"
proof -
  from assms(1) obtain kvs where a: "get_prop r ''ai_analysis'' = Obj kvs"
    by (cases "get_prop r ''ai_analysis''") (simp_all add: analysis_shaped_def)
  from assms(1) a obtain cs where c: "get_prop (Obj kvs) ''categories'' = Obj cs"
    and all: "list_all category_shaped (map snd cs)"
    by (cases "get_prop (Obj kvs) ''categories''") (auto simp add: analysis_shaped_def simp del: get_prop.simps)
  from all have "\<not> list_ex (\<lambda>data. nullish data \<or> \<not> converts (get_prop data ''score'')) (map snd cs)"
    using category_ok by (auto simp add: list_all_iff list_ex_iff simp del: get_prop.simps)
  with a c assms(2) show ?thesis
    by (simp add: score_overview_throws_def Let_def nullish_def del: get_prop.simps)
qed

lemma shaped_issues: "issues_shaped d \<Longrightarrow> isArray d \<and> \<not> list_ex nullish (elements d)"
  by (cases d) (auto simp add: issues_shaped_def issue_shaped_def isArray_def elements_def nullish_def
      list_all_iff list_ex_iff split: js.splits)

lemma shaped_ai_analysis:
  assumes "analysis_shaped (get_prop r ''ai_analysis'')" and "issues_shaped (get_prop r ''detailed_issues'')"
  shows "\<not> ai_analysis_throws r"
proof -
  from assms(1) have "isArray (get_prop (get_prop r ''ai_analysis'') ''strengths'') \<and>
      isArray (get_prop (get_prop r ''ai_analysis'') ''improvements'')"
    by (rule analysis_arrays)
  with shaped_issues [OF assms(2)] show ?thesis
    by (simp add: ai_analysis_throws_def Let_def del: get_prop.simps)
qed

lemma shaped_quick_stats:
  "issues_shaped (get_prop r ''detailed_issues'') \<Longrightarrow> converts (get_prop r ''score'') \<Longrightarrow>
   \<not> quick_stats_throws r"
  using shaped_issues [of "get_prop r ''detailed_issues''"]
  by (simp add: quick_stats_throws_def Let_def del: get_prop.simps)

lemma score_overview_selected:
  "ScoreOverview \<in> set (page_sections r) \<Longrightarrow> truthy (get_prop r ''score'') \<and> truthy (get_prop r ''ai_analysis'')"
  by (simp add: page_sections_def Let_def show_when_set del: get_prop.simps split: if_splits)

lemma ai_analysis_selected:
  "AIAnalysis \<in> set (page_sections r) \<Longrightarrow> truthy (get_prop r ''ai_analysis'')"
  by (simp add: page_sections_def Let_def show_when_set del: get_prop.simps split: if_splits)

lemma shaped_renders:
  assumes "declared_shape r" and "converts (get_prop r ''score'')"
  shows "\<not> render_throws r"
proof -
  have a: "analysis_shaped (get_prop r ''ai_analysis'')" if "truthy (get_prop r ''ai_analysis'')"
    using assms(1) that by (auto simp add: declared_shape_def simp del: get_prop.simps)
  have i: "issues_shaped (get_prop r ''detailed_issues'')"
    using assms(1) by (simp add: declared_shape_def del: get_prop.simps)
  show ?thesis
    using shaped_shell [OF assms(1)] shaped_score_overview [OF a assms(2)]
      shaped_ai_analysis [OF a i] shaped_quick_stats [OF i assms(2)]
      score_overview_selected [of r] ai_analysis_selected [of r]
    by (auto simp add: render_throws_def simp del: get_prop.simps)
qed

lemmas page_eval =
  fetchReview_def ok_def ReviewDetailPage_def page_sections_def Let_def show_when_def
  detailedReview_def parsedResults_def js_or_def sample_parse_def sample_analysis_def
  getStatusIcon_def render_throws_def shell_throws_def score_overview_throws_def
  ai_analysis_throws_def quick_stats_throws_def nullish_def is_string_def isArray_def
  elements_def

text \<open>
  C6, as the claim states it, fails in two ways. The analysis block does not look at the
  score: review R7 is completed, has no score and has an analysis, and the page shows the
  analysis block. And a score together with a resolved analysis does not yet give the
  two blocks: review R1 of the specification has score 8 and resolves its analysis from
  the payload text to an object with a summary only, so the score card calls
  \<open>Object.entries\<close> on the missing \<open>categories\<close> and the page throws.
\<close>

theorem completed_blocks_counterexample:
  "get_prop (Obj [(''id'', Str ''R7''), (''status'', Str ''completed''), (''score'', Null),
                  (''ai_analysis'', sample_analysis), (''detailed_issues'', Arr [])]) ''score''
     = Null \<and>
   ReviewDetailPage (fetchReview sample_parse (Some ''u1'')
      (Some \<lparr>status_code = 200, json_body = Some
        (Obj [(''id'', Str ''R7''), (''status'', Str ''completed''), (''score'', Null),
              (''ai_analysis'', sample_analysis), (''detailed_issues'', Arr [])])\<rparr>))
    = Detail [Header CheckCircle, CodeDisplay, AIAnalysis, QuickStats, Actions, ReviewDetails] \<and>
   get_prop (detailedReview sample_parse
      (Obj [(''id'', Str ''R1''), (''status'', Str ''completed''), (''score'', Num 8),
            (''metrics'', Obj [(''complexity'', Num 5)]),
            (''code_data'', Obj [(''results'', Str ''{\"analysis\":{\"summary\":\"ok\"}}'')])]))
      ''score'' = Num 8 \<and>
   get_prop (detailedReview sample_parse
      (Obj [(''id'', Str ''R1''), (''status'', Str ''completed''), (''score'', Num 8),
            (''metrics'', Obj [(''complexity'', Num 5)]),
            (''code_data'', Obj [(''results'', Str ''{\"analysis\":{\"summary\":\"ok\"}}'')])]))
      ''ai_analysis'' = Obj [(''summary'', Str ''ok'')] \<and>
   ReviewDetailPage (fetchReview sample_parse (Some ''u1'')
      (Some \<lparr>status_code = 200, json_body = Some
        (Obj [(''id'', Str ''R1''), (''status'', Str ''completed''), (''score'', Num 8),
              (''metrics'', Obj [(''complexity'', Num 5)]),
              (''code_data'', Obj [(''results'', Str ''{\"analysis\":{\"summary\":\"ok\"}}'')])])\<rparr>))
    = RenderError"
  by (simp add: page_eval)

text \<open>
  C6, amended. For a completed review whose score is missing or a number other than
  zero, and whose merged fields have the shapes the interface declares
  (\<open>declared_shape\<close>: the printed fields primitives or missing; \<open>language\<close>,
  \<open>created_at\<close>, \<open>completed_at\<close> and \<open>github_path\<close> strings or missing; the code a
  string; the analysis unresolved or an object with \<open>strengths\<close> and \<open>improvements\<close>
  arrays and a \<open>categories\<close> object whose entries are objects with a numeric score; the
  issues an array of objects), the hook reports no error and the page returns the
  review shell; the score block is shown exactly when the score is present and the
  analysis is resolved; the analysis block is shown exactly when the analysis is
  resolved, whatever the score.
\<close>

theorem completed_blocks_shown:
  assumes "ok res" and "json_body res = Some reviewData" and "truthy reviewData"
    and "get_prop reviewData ''status'' = Str ''completed''"
    and "get_prop reviewData ''score'' = Null \<or> get_prop reviewData ''score'' = Undefined \<or>
         (\<exists>n. get_prop reviewData ''score'' = Num n \<and> n \<noteq> 0)"
    and "declared_shape (detailedReview JSON_parse reviewData)"
  shows "ReviewDetailPage (fetchReview JSON_parse (Some uid) (Some res)) =
           Detail (page_sections (detailedReview JSON_parse reviewData)) \<and>
         (ScoreOverview \<in> set (page_sections (detailedReview JSON_parse reviewData))) =
           (get_prop reviewData ''score'' \<noteq> Null \<and> get_prop reviewData ''score'' \<noteq> Undefined \<and>
            get_prop (detailedReview JSON_parse reviewData) ''ai_analysis'' \<noteq> Undefined) \<and>
         (AIAnalysis \<in> set (page_sections (detailedReview JSON_parse reviewData))) =
           (get_prop (detailedReview JSON_parse reviewData) ''ai_analysis'' \<noteq> Undefined) \<and>
         {Header CheckCircle, CodeDisplay, QuickStats, Actions, ReviewDetails}
           \<subseteq> set (page_sections (detailedReview JSON_parse reviewData)) \<and>
         PendingState \<notin> set (page_sections (detailedReview JSON_parse reviewData)) \<and>
         FailedState \<notin> set (page_sections (detailedReview JSON_parse reviewData))"
proof -
  let ?r = "detailedReview JSON_parse reviewData"
  have "converts (get_prop ?r ''score'')"
    using assms(5) by (auto simp add: merged_score)
  with assms(6) have "\<not> render_throws ?r"
    by (rule shaped_renders)
  then have page: "ReviewDetailPage (fetchReview JSON_parse (Some uid) (Some res)) = Detail (page_sections ?r)"
    using assms(1-3) by (simp add: fetchReview_ok ReviewDetailPage_def)
  have ai: "truthy (get_prop ?r ''ai_analysis'') = (get_prop ?r ''ai_analysis'' \<noteq> Undefined)"
    by (auto simp add: merged_ai_analysis first_truthy_def simp del: get_prop.simps)
  have iss: "truthy (get_prop ?r ''detailed_issues'')"
    by (simp add: merged_detailed_issues first_truthy_def del: get_prop.simps)
  have sc: "truthy (get_prop reviewData ''score'') =
         (get_prop reviewData ''score'' \<noteq> Null \<and> get_prop reviewData ''score'' \<noteq> Undefined)"
    using assms(5) by auto
  show ?thesis
    using page assms(4) ai iss sc
    by (simp add: page_sections_def Let_def show_when_set merged_score status_kept getStatusIcon_def
        del: get_prop.simps)
qed

text \<open>
  Review R1, completed with score 8 and an analysis, shows both blocks; review R8,
  completed with neither a score nor an analysis, shows the shell without them.
\<close>

theorem completed_blocks_shown_witness:
  "declared_shape (detailedReview sample_parse
      (Obj [(''id'', Str ''R1''), (''status'', Str ''completed''), (''score'', Num 8),
            (''language'', Str ''Python''), (''created_at'', Str ''2024-01-01T00:00:00Z''),
            (''ai_analysis'', sample_analysis)])) \<and>
   ReviewDetailPage (fetchReview sample_parse (Some ''u1'')
      (Some \<lparr>status_code = 200, json_body = Some
        (Obj [(''id'', Str ''R1''), (''status'', Str ''completed''), (''score'', Num 8),
              (''language'', Str ''Python''), (''created_at'', Str ''2024-01-01T00:00:00Z''),
              (''ai_analysis'', sample_analysis)])\<rparr>))
    = Detail [Header CheckCircle, ScoreOverview, CodeDisplay, AIAnalysis, QuickStats,
              QuickStatsScore, Actions, ReviewDetails] \<and>
   declared_shape (detailedReview sample_parse
      (Obj [(''id'', Str ''R8''), (''status'', Str ''completed''), (''score'', Null),
            (''language'', Str ''Python''), (''created_at'', Str ''2024-01-01T00:00:00Z'')])) \<and>
   ReviewDetailPage (fetchReview sample_parse (Some ''u1'')
      (Some \<lparr>status_code = 200, json_body = Some
        (Obj [(''id'', Str ''R8''), (''status'', Str ''completed''), (''score'', Null),
              (''language'', Str ''Python''), (''created_at'', Str ''2024-01-01T00:00:00Z'')])\<rparr>))
    = Detail [Header CheckCircle, CodeDisplay, QuickStats, Actions, ReviewDetails]"
proof -
  let ?r1 = "Obj [(''id'', Str ''R1''), (''status'', Str ''completed''), (''score'', Num 8),
              (''language'', Str ''Python''), (''created_at'', Str ''2024-01-01T00:00:00Z''),
              (''ai_analysis'', sample_analysis)]"
  let ?r8 = "Obj [(''id'', Str ''R8''), (''status'', Str ''completed''), (''score'', Null),
              (''language'', Str ''Python''), (''created_at'', Str ''2024-01-01T00:00:00Z'')]"
  have d1: "declared_shape (detailedReview sample_parse ?r1)"
    by (simp add: declared_shape_def text_or_missing_def analysis_shaped_def category_shaped_def
        issues_shaped_def issue_shaped_def scalar_def scalars_def is_string_def
        detailedReview_def parsedResults_def js_or_def sample_analysis_def)
  have d8: "declared_shape (detailedReview sample_parse ?r8)"
    by (simp add: declared_shape_def text_or_missing_def analysis_shaped_def category_shaped_def
        issues_shaped_def issue_shaped_def scalar_def scalars_def is_string_def
        detailedReview_def parsedResults_def js_or_def)
  have s1: "page_sections (detailedReview sample_parse ?r1)
      = [Header CheckCircle, ScoreOverview, CodeDisplay, AIAnalysis, QuickStats,
         QuickStatsScore, Actions, ReviewDetails]"
    by (simp add: page_sections_def Let_def show_when_def detailedReview_def parsedResults_def
        js_or_def getStatusIcon_def sample_analysis_def)
  have s8: "page_sections (detailedReview sample_parse ?r8)
      = [Header CheckCircle, CodeDisplay, QuickStats, Actions, ReviewDetails]"
    by (simp add: page_sections_def Let_def show_when_def detailedReview_def parsedResults_def
        js_or_def getStatusIcon_def)
  from completed_blocks_shown [where JSON_parse = sample_parse and uid = "''u1''"
      and res = "\<lparr>status_code = 200, json_body = Some ?r1\<rparr>" and reviewData = ?r1] d1
  have p1: "ReviewDetailPage (fetchReview sample_parse (Some ''u1'')
      (Some \<lparr>status_code = 200, json_body = Some ?r1\<rparr>))
      = Detail (page_sections (detailedReview sample_parse ?r1))"
    by (simp add: ok_def)
  from completed_blocks_shown [where JSON_parse = sample_parse and uid = "''u1''"
      and res = "\<lparr>status_code = 200, json_body = Some ?r8\<rparr>" and reviewData = ?r8] d8
  have p8: "ReviewDetailPage (fetchReview sample_parse (Some ''u1'')
      (Some \<lparr>status_code = 200, json_body = Some ?r8\<rparr>))
      = Detail (page_sections (detailedReview sample_parse ?r8))"
    by (simp add: ok_def)
  from d1 d8 p1 p8 s1 s8 show ?thesis by simp
qed




section \<open>Properties of the history page\<close>

lemma insert_sorted_insort:
  "(\<And>a b. (cmp a b \<le> 0) = (key a \<le> key b)) \<Longrightarrow> insert_sorted cmp x ys = insort_key key x ys"
  by (induction ys) simp_all

lemma array_sort_sort_key:
  assumes "\<And>a b. (cmp a b \<le> 0) = (key a \<le> (key b :: int))"
  shows "array_sort cmp xs = sort_key key xs"
proof -
  have step: "insert_sorted cmp x ys = insort_key key x ys" for x ys
    by (rule insert_sorted_insort) (rule assms)
  show ?thesis
    unfolding array_sort_def sort_key_def by (induction xs) (simp_all add: step)
qed

lemma array_sort_compareFn:
  "array_sort (compareFn getTime sortBy) xs = sort_key (sort_key_of getTime sortBy) xs"
  by (rule array_sort_sort_key) (simp add: compareFn_def sort_key_of_def Let_def)

lemma sorted_neg_rev:
  "sorted (map f xs) \<Longrightarrow> sorted (map (\<lambda>x. - (f x :: int)) (rev xs))"
  by (simp add: rev_map [symmetric] sorted_wrt_rev sorted_wrt_map sorted_map del: rev_map)

lemma sort_key_neg_rev:
  assumes "distinct (map f xs)"
  shows "sort_key (\<lambda>x. - (f x :: int)) xs = rev (sort_key f xs)"
proof (rule sort_key_inj_key_eq)
  show "mset xs = mset (rev (sort_key f xs))" by simp
  from assms have "inj_on f (set xs)" by (simp add: distinct_map)
  then show "inj_on (\<lambda>x. - f x) (set xs)" by (auto simp add: inj_on_def)
  show "sorted (map (\<lambda>x. - f x) (rev (sort_key f xs)))"
    by (rule sorted_neg_rev) simp
qed

lemma js_includes_sublist: "js_includes s q = sublist q s"
  by (induction s) (simp_all add: sublist_Cons_right)

lemma filtered_sort_key:
  "filtered L T q lf sb history = sort_key (sort_key_of T sb) (filter (keeps L q lf) history)"
  by (simp add: filtered_def array_sort_compareFn)

lemma keeps_all:
  "keeps L q ''all'' item =
     (q = [] \<or> (\<exists>s. (language item = Some s \<or> title item = Some s \<or> code item = Some s) \<and>
                    sublist (L q) (L s)))"
  by (auto simp add: keeps_def matchesSearch_def matchesLanguage_def field_includes_def
      js_includes_sublist split: option.splits)

lemma newest_is_rev_oldest:
  assumes "distinct (map (\<lambda>item. T (created_at item)) history)"
  shows "filtered L T q lf ''newest'' history = rev (filtered L T q lf ''oldest'' history)"
proof -
  let ?kept = "filter (keeps L q lf) history"
  have d: "distinct (map (\<lambda>item. T (created_at item)) ?kept)"
    using assms by (rule distinct_map_filter)
  have "sort_key (\<lambda>item. - T (created_at item)) ?kept = rev (sort_key (\<lambda>item. T (created_at item)) ?kept)"
    using d by (rule sort_key_neg_rev)
  then show ?thesis
    by (simp add: filtered_sort_key sort_key_of_def [abs_def])
qed

lemma keeps_all_with_field:
  assumes "L [] = []"
    and "language item \<noteq> None \<or> title item \<noteq> None \<or> code item \<noteq> None"
  shows "keeps L q ''all'' item =
     (\<exists>s. (language item = Some s \<or> title item = Some s \<or> code item = Some s) \<and>
          sublist (L q) (L s))"
proof (cases "q = []")
  case True
  from assms(2) obtain s where "language item = Some s \<or> title item = Some s \<or> code item = Some s"
    by auto
  with True assms(1) show ?thesis
    by (auto simp add: keeps_all)
next
  case False
  then show ?thesis by (simp add: keeps_all)
qed

text \<open>
  C8, as the claim states it, fails in its second half: pairwise distinct \<open>created_at\<close>
  values need not be distinct instants. The two rows below carry the same instant
  written in two ways; the comparator is zero on them, the stable sort leaves them in
  their fetched order under \<open>newest\<close> and under \<open>oldest\<close> alike, and the two results are
  equal, not reversed.
\<close>

theorem search_filter_counterexample:
  "distinct (map created_at [row_utils, row_utils_copy]) \<and>
   filtered ascii_lower sample_time [] ''all'' ''newest'' [row_utils, row_utils_copy]
     = [row_utils, row_utils_copy] \<and>
   rev (filtered ascii_lower sample_time [] ''all'' ''oldest'' [row_utils, row_utils_copy])
     = [row_utils_copy, row_utils] \<and>
   filtered ascii_lower sample_time [] ''all'' ''newest'' [row_utils, row_utils_copy]
     \<noteq> rev (filtered ascii_lower sample_time [] ''all'' ''oldest'' [row_utils, row_utils_copy])"
  by (simp add: filtered_def keeps_def matchesSearch_def matchesLanguage_def row_utils_def
      row_utils_copy_def compareFn_def sample_time_def array_sort_def)

text \<open>
  C8, amended. With the language filter at \<open>all\<close>, the value it has throughout on this
  page, for every row that has at least one of language, title and code (a row of the
  history has a title and a language) and every query, the filter keeps the row exactly
  when the query is, after lower-casing both, a run of consecutive characters of its
  language, title or code (lower-casing maps the empty string to itself); the sort only
  reorders the rows kept. When the \<open>created_at\<close> values of the rows are pairwise distinct
  instants, the order under \<open>newest\<close> is the reverse of the order under \<open>oldest\<close>.
\<close>

theorem search_filter_and_reversal:
  "(toLowerCase [] = [] \<and>
    (language item \<noteq> None \<or> title item \<noteq> None \<or> code item \<noteq> None) \<longrightarrow>
      keeps toLowerCase searchQuery ''all'' item =
        (\<exists>s. (language item = Some s \<or> title item = Some s \<or> code item = Some s) \<and>
             sublist (toLowerCase searchQuery) (toLowerCase s))) \<and>
   mset (filtered toLowerCase getTime searchQuery ''all'' sortBy history) =
     mset (filter (keeps toLowerCase searchQuery ''all'') history) \<and>
   (distinct (map (\<lambda>item. getTime (created_at item)) history) \<longrightarrow>
      filtered toLowerCase getTime searchQuery languageFilter ''newest'' history =
        rev (filtered toLowerCase getTime searchQuery languageFilter ''oldest'' history))"
proof -
  have "distinct (map (\<lambda>item. getTime (created_at item)) history) \<longrightarrow>
      filtered toLowerCase getTime searchQuery languageFilter ''newest'' history =
        rev (filtered toLowerCase getTime searchQuery languageFilter ''oldest'' history)"
    using newest_is_rev_oldest [of getTime history toLowerCase searchQuery languageFilter]
    by blast
  moreover have "mset (filtered toLowerCase getTime searchQuery ''all'' sortBy history) =
      mset (filter (keeps toLowerCase searchQuery ''all'') history)"
    by (simp add: filtered_sort_key)
  moreover have "toLowerCase [] = [] \<and>
      (language item \<noteq> None \<or> title item \<noteq> None \<or> code item \<noteq> None) \<longrightarrow>
      keeps toLowerCase searchQuery ''all'' item =
        (\<exists>s. (language item = Some s \<or> title item = Some s \<or> code item = Some s) \<and>
             sublist (toLowerCase searchQuery) (toLowerCase s))"
    using keeps_all_with_field [of toLowerCase item searchQuery] by blast
  ultimately show ?thesis by blast
qed

text \<open>
  Three rows created on three days, searched for \<open>PyTh\<close>: the row titled
  \<open>PYTHON cli\<close> and the row in Python are kept, the TypeScript row is not, and the two
  orders are reverses of each other.
\<close>

theorem search_filter_and_reversal_witness:
  "ascii_lower [] = [] \<and>
   title row_cli \<noteq> None \<and> title row_parser \<noteq> None \<and>
   distinct (map (\<lambda>item. sample_time (created_at item)) [row_utils, row_parser, row_cli]) \<and>
   filtered ascii_lower sample_time ''PyTh'' ''all'' ''newest'' [row_utils, row_parser, row_cli]
     = rev (filtered ascii_lower sample_time ''PyTh'' ''all'' ''oldest''
              [row_utils, row_parser, row_cli]) \<and>
   filtered ascii_lower sample_time ''PyTh'' ''all'' ''newest'' [row_utils, row_parser, row_cli]
     = [row_cli, row_utils] \<and>
   keeps ascii_lower ''PyTh'' ''all'' row_cli \<and>
   \<not> keeps ascii_lower ''PyTh'' ''all'' row_parser"
proof -
  have d: "distinct (map (\<lambda>item. sample_time (created_at item)) [row_utils, row_parser, row_cli])"
    by (simp add: row_utils_def row_parser_def row_cli_def sample_time_def)
  have r: "filtered ascii_lower sample_time ''PyTh'' ''all'' ''newest'' [row_utils, row_parser, row_cli]
     = rev (filtered ascii_lower sample_time ''PyTh'' ''all'' ''oldest''
              [row_utils, row_parser, row_cli])"
    using search_filter_and_reversal [of ascii_lower row_cli "''PyTh''" sample_time "''newest''"
      "[row_utils, row_parser, row_cli]" "''all''"] d
    by blast
  have n: "filtered ascii_lower sample_time ''PyTh'' ''all'' ''newest'' [row_utils, row_parser, row_cli]
     = [row_cli, row_utils]"
    by (simp add: filtered_def keeps_def matchesSearch_def matchesLanguage_def field_includes_def
      ascii_lower_def row_utils_def row_parser_def row_cli_def compareFn_def sample_time_def
      array_sort_def)
  have k: "keeps ascii_lower ''PyTh'' ''all'' row_cli"
    by (simp add: keeps_def matchesSearch_def matchesLanguage_def field_includes_def
      ascii_lower_def row_cli_def)
  have k': "\<not> keeps ascii_lower ''PyTh'' ''all'' row_parser"
    by (simp add: keeps_def matchesSearch_def matchesLanguage_def field_includes_def
      ascii_lower_def row_parser_def)
  have e: "ascii_lower [] = []"
    by (simp add: ascii_lower_def)
  have t: "title row_cli \<noteq> None \<and> title row_parser \<noteq> None"
    by (simp add: row_cli_def row_parser_def)
  from e t d r n k k' show ?thesis by blast
qed

lemma pipeline_idempotent:
  "filtered L T q lf sb (filtered L T q lf sb history) = filtered L T q lf sb history"
proof -
  let ?ys = "sort_key (sort_key_of T sb) (filter (keeps L q lf) history)"
  have "filter (keeps L q lf) ?ys = ?ys"
    by (simp add: filter_sort)
  moreover have "sort_key (sort_key_of T sb) ?ys = ?ys"
    by (rule sort_key_id_if_sorted) simp
  ultimately show ?thesis by (simp add: filtered_sort_key)
qed

lemma pipeline_stable:
  "filter (\<lambda>item. T (created_at item) = t) (filtered L T q lf sb history) =
   filter (\<lambda>item. T (created_at item) = t) (filter (keeps L q lf) history)"
proof (cases "sb = ''newest''")
  case True
  have "filter (\<lambda>item. sort_key_of T sb item = - t) (sort_key (sort_key_of T sb) (filter (keeps L q lf) history))
      = filter (\<lambda>item. sort_key_of T sb item = - t) (filter (keeps L q lf) history)"
    by (rule sort_key_stable)
  with True show ?thesis by (simp add: filtered_sort_key sort_key_of_def)
next
  case False
  have "filter (\<lambda>item. sort_key_of T sb item = t) (sort_key (sort_key_of T sb) (filter (keeps L q lf) history))
      = filter (\<lambda>item. sort_key_of T sb item = t) (filter (keeps L q lf) history)"
    by (rule sort_key_stable)
  with False show ?thesis by (simp add: filtered_sort_key sort_key_of_def)
qed

lemma pipeline_in_heap:
  "filtered_in_heap L T q lf sb a heap =
     (length heap, heap @ [filtered L T q lf sb (heap ! a)])"
  by (simp add: filtered_in_heap_def heap_filter_def heap_sort_def filtered_def)

text \<open>
  C9. The filter and sort are a function of the fetched rows and the page's three
  settings. Applied to its own output the pipeline returns that output. Rows with the
  same creation instant come out in the order in which the filter kept them. Run on
  arrays in a store, the pipeline returns a freshly allocated array holding the result
  and leaves the fetched array, and every other array allocated before, as it was.
\<close>

theorem filtered_pure_idempotent_stable:
  "filtered toLowerCase getTime searchQuery languageFilter sortBy
      (filtered toLowerCase getTime searchQuery languageFilter sortBy history) =
     filtered toLowerCase getTime searchQuery languageFilter sortBy history \<and>
   filter (\<lambda>item. getTime (created_at item) = t)
      (filtered toLowerCase getTime searchQuery languageFilter sortBy history) =
     filter (\<lambda>item. getTime (created_at item) = t)
      (filter (keeps toLowerCase searchQuery languageFilter) history) \<and>
   (a < length heap \<longrightarrow>
      (case filtered_in_heap toLowerCase getTime searchQuery languageFilter sortBy a heap of
         (b, heap') \<Rightarrow>
           b \<noteq> a \<and>
           heap' ! b = filtered toLowerCase getTime searchQuery languageFilter sortBy (heap ! a) \<and>
           heap' ! a = heap ! a \<and>
           take (length heap) heap' = heap))"
  by (simp add: pipeline_idempotent pipeline_stable pipeline_in_heap nth_append)

text \<open>
  Three rows, two of them created at the same instant: under \<open>newest\<close> the later row
  comes first and the two tied rows keep their fetched order; the result is a second
  array, and the pipeline maps it to itself.
\<close>

theorem filtered_pure_idempotent_stable_witness:
  "filtered_in_heap ascii_lower sample_time [] ''all'' ''newest'' 0
      [[row_utils, row_parser, row_bare]]
     = (1, [[row_utils, row_parser, row_bare], [row_parser, row_utils, row_bare]]) \<and>
   filtered ascii_lower sample_time [] ''all'' ''newest'' [row_parser, row_utils, row_bare]
     = [row_parser, row_utils, row_bare]"
  using filtered_pure_idempotent_stable [of ascii_lower sample_time "[]" "''all''" "''newest''"
      "[row_utils, row_parser, row_bare]" 0 0 "[[row_utils, row_parser, row_bare]]"]
  by (simp add: filtered_in_heap_def heap_filter_def heap_sort_def filtered_def keeps_def
      matchesSearch_def matchesLanguage_def
      row_utils_def row_parser_def row_bare_def compareFn_def sample_time_def array_sort_def)

text \<open>
  The page on two stored rows that are read, and on a stored \<open>null\<close> row, which is not.
\<close>

lemma history_page_reads_rows:
  "HistoryPage ascii_lower sample_time ''parser'' ''all'' ''newest'' False
     [Obj [(''id'', Str ''r1''), (''title'', Str ''Sort Utils''), (''language'', Str ''Python''),
           (''code'', Str ''def f(): pass''), (''created_at'', Str ''2024-01-01T00:00:00Z'')],
      Obj [(''id'', Str ''r2''), (''title'', Str ''Parser''), (''language'', Str ''TypeScript''),
           (''code'', Null), (''created_at'', Str ''2024-01-03T00:00:00Z'')]]
   = Some (HistoryCards [row_parser] False)"
  by (simp add: HistoryPage_def as_item_def opt_string_def filtered_def keeps_def
      matchesSearch_def matchesLanguage_def field_includes_def ascii_lower_def row_parser_def
      compareFn_def sample_time_def array_sort_def)

lemma history_page_null_row:
  "HistoryPage ascii_lower sample_time [] ''all'' ''newest'' False [Null] = None"
  by (simp add: HistoryPage_def as_item_def)

text \<open>
  C10. When the history request is rejected, answered with an error status, answered
  with a body that is not JSON, or answered with JSON that is not an array, the stored
  history is the empty array, and the page, no longer loading, shows no card but the
  "No matching reviews found." one.
\<close>

theorem malformed_history_is_empty:
  assumes "response = None \<or>
           (\<exists>res. response = Some res \<and>
              (\<not> ok res \<or> json_body res = None \<or>
               (\<exists>data. json_body res = Some data \<and> \<not> isArray data)))"
  shows "fetchHistory response = [] \<and>
         HistoryPage toLowerCase getTime searchQuery languageFilter sortBy False
           (fetchHistory response) = Some (HistoryCards [] True)"
proof -
  have "fetchHistory response = []"
    using assms by (auto simp add: fetchHistory_def)
  then show ?thesis
    by (simp add: HistoryPage_def filtered_def array_sort_def)
qed

theorem malformed_history_is_empty_witness:
  "fetchHistory None = [] \<and>
   fetchHistory (Some \<lparr>status_code = 500, json_body = Some (Arr [Obj [(''id'', Str ''r1'')]])\<rparr>) = [] \<and>
   fetchHistory (Some \<lparr>status_code = 200, json_body = None\<rparr>) = [] \<and>
   fetchHistory (Some \<lparr>status_code = 200,
                       json_body = Some (Obj [(''detail'', Str ''Internal error'')])\<rparr>) = [] \<and>
   HistoryPage ascii_lower sample_time [] ''all'' ''newest'' False
     (fetchHistory (Some \<lparr>status_code = 200,
                           json_body = Some (Obj [(''detail'', Str ''Internal error'')])\<rparr>))
     = Some (HistoryCards [] True)"
  using malformed_history_is_empty [of None ascii_lower sample_time "[]" "''all''" "''newest''"]
    malformed_history_is_empty [of
      "Some \<lparr>status_code = 500, json_body = Some (Arr [Obj [(''id'', Str ''r1'')]])\<rparr>"
      ascii_lower sample_time "[]" "''all''" "''newest''"]
    malformed_history_is_empty [of "Some \<lparr>status_code = 200, json_body = None\<rparr>"
      ascii_lower sample_time "[]" "''all''" "''newest''"]
    malformed_history_is_empty [of
      "Some \<lparr>status_code = 200, json_body = Some (Obj [(''detail'', Str ''Internal error'')])\<rparr>"
      ascii_lower sample_time "[]" "''all''" "''newest''"]
  by (simp add: ok_def isArray_def HistoryPage_def filtered_def array_sort_def)

section \<open>Properties of the backend operation\<close>

text \<open>
  C4. \<open>aggregate\<close> fails with \<open>NotFound\<close> when the store has no review under the id,
  and with \<open>Forbidden\<close> when the review's \<open>user_id\<close> is not the caller's. The response to
  a forbidden request is a 403 without a body, and the hook that receives it ends in its
  failure state, which holds no review.
\<close>

theorem aggregate_not_found_forbidden:
  "(map_of (reviews store) reviewId = None \<longrightarrow>
      aggregate store reviewId callerUserId = Inl NotFound \<and>
      review (fetchReview JSON_parse (Some callerUserId)
                (Some (respond (aggregate store reviewId callerUserId)))) = None) \<and>
   (\<forall>r. map_of (reviews store) reviewId = Some r \<and> get_prop r ''user_id'' \<noteq> Str callerUserId \<longrightarrow>
      aggregate store reviewId callerUserId = Inl Forbidden \<and>
      json_body (respond (aggregate store reviewId callerUserId)) = None \<and>
      status_code (respond (aggregate store reviewId callerUserId)) = 403 \<and>
      fetchReview JSON_parse (Some callerUserId)
         (Some (respond (aggregate store reviewId callerUserId))) = fetch_failed)"
  by (simp add: aggregate_def respond_def fetchReview_def ok_def fetch_failed_def)

theorem aggregate_not_found_forbidden_witness:
  "aggregate sample_store ''R9'' ''alice'' = Inl NotFound \<and>
   aggregate sample_store ''R1'' ''mallory'' = Inl Forbidden \<and>
   json_body (respond (aggregate sample_store ''R1'' ''mallory'')) = None \<and>
   fetchReview sample_parse (Some ''mallory'')
     (Some (respond (aggregate sample_store ''R1'' ''mallory''))) = fetch_failed"
  using aggregate_not_found_forbidden [of sample_store "''R9''" "''alice''" sample_parse]
    aggregate_not_found_forbidden [of sample_store "''R1''" "''mallory''" sample_parse]
  by (simp add: sample_store_def aggregate_def respond_def fetchReview_def ok_def)

end
